theory Spec2Isabelle
  imports Complex_Main
begin

section \<open>Common conventions\<close>

text \<open>
  The two physics modules (\<^verbatim>\<open>ohms_law_simulation/simulation/physics.py\<close> and
  \<^verbatim>\<open>vision_simulation/simulation/physics.py\<close>) are embedded as state-passing
  functions over records. Python floats are idealised as \<^typ>\<open>real\<close>; the patient
  age is a Python \<^verbatim>\<open>int\<close> and becomes \<^typ>\<open>int\<close>. Every true division whose
  divisor is a computed value goes through \<open>py_truediv\<close>, so that Python's
  \<^verbatim>\<open>ZeroDivisionError\<close> is a value of the model and not HOL's \<open>x / 0 = 0\<close>.
  Divisions by a nonzero literal (\<^verbatim>\<open>/ 100.0\<close>, \<^verbatim>\<open>/ 60.0\<close>, \<^verbatim>\<open>/ 30.0\<close>) cannot raise
  and are written with the plain division of the reals.
\<close>

datatype py_error = ZeroDivisionError

definition py_truediv :: "real \<Rightarrow> real \<Rightarrow> py_error + real" where
  "py_truediv a b = (if b = 0 then Inl ZeroDivisionError else Inr (a / b))"


section \<open>OhmsLawPhysics\<close>

record ohms_state =
  ohm_voltage :: real
  ohm_resistance :: real
  ohm_current :: real
  ohm_power :: real

definition MIN_VOLTAGE :: real where "MIN_VOLTAGE = 1.0"
definition MAX_VOLTAGE :: real where "MAX_VOLTAGE = 50.0"
definition MIN_RESISTANCE :: real where "MIN_RESISTANCE = 1.0"
definition MAX_RESISTANCE :: real where "MAX_RESISTANCE = 100.0"
definition MIN_SAFE_RESISTANCE :: real where "MIN_SAFE_RESISTANCE = 0.1"

record ohms_preset =
  preset_voltage :: real
  preset_resistance :: real

definition OHMS_PRESETS :: "string \<rightharpoonup> ohms_preset" where
  "OHMS_PRESETS = map_of
     [(''normal'',        \<lparr>preset_voltage = 12.0, preset_resistance = 10.0\<rparr>),
      (''high_current'',  \<lparr>preset_voltage = 24.0, preset_resistance = 2.0\<rparr>),
      (''low_current'',   \<lparr>preset_voltage = 5.0,  preset_resistance = 50.0\<rparr>),
      (''short_circuit'', \<lparr>preset_voltage = 12.0, preset_resistance = 0.1\<rparr>),
      (''open_circuit'',  \<lparr>preset_voltage = 12.0, preset_resistance = 100.0\<rparr>)]"

definition clamp_voltage :: "real \<Rightarrow> real" where
  "clamp_voltage voltage = max MIN_VOLTAGE (min MAX_VOLTAGE voltage)"

definition clamp_resistance :: "real \<Rightarrow> real" where
  "clamp_resistance resistance = max MIN_RESISTANCE (min MAX_RESISTANCE resistance)"

text \<open>\<^verbatim>\<open>_update_calculations\<close>: floor the resistance at 0.1, then I = V / R and P = V * I.\<close>

definition update_calculations :: "ohms_state \<Rightarrow> py_error + ohms_state" where
  "update_calculations s =
     (let safe_resistance = max (ohm_resistance s) MIN_SAFE_RESISTANCE in
      case py_truediv (ohm_voltage s) safe_resistance of
        Inl e \<Rightarrow> Inl e
      | Inr c \<Rightarrow> Inr (s\<lparr>ohm_current := c, ohm_power := ohm_voltage s * c\<rparr>))"

text \<open>\<^verbatim>\<open>__init__\<close>: both arguments are clamped, current and power start at 0.0 and are
  recomputed at once.\<close>

definition ohms_init :: "real \<Rightarrow> real \<Rightarrow> py_error + ohms_state" where
  "ohms_init voltage resistance =
     update_calculations
       \<lparr>ohm_voltage = clamp_voltage voltage,
        ohm_resistance = clamp_resistance resistance,
        ohm_current = 0.0,
        ohm_power = 0.0\<rparr>"

text \<open>The property setters \<^verbatim>\<open>voltage\<close> and \<^verbatim>\<open>resistance\<close>.\<close>

definition set_voltage :: "real \<Rightarrow> ohms_state \<Rightarrow> py_error + ohms_state" where
  "set_voltage v s = update_calculations (s\<lparr>ohm_voltage := clamp_voltage v\<rparr>)"

definition set_resistance :: "real \<Rightarrow> ohms_state \<Rightarrow> py_error + ohms_state" where
  "set_resistance v s = update_calculations (s\<lparr>ohm_resistance := clamp_resistance v\<rparr>)"

text \<open>\<^verbatim>\<open>set_preset\<close> returns the new state together with the boolean it reports.\<close>

definition ohms_set_preset :: "string \<Rightarrow> ohms_state \<Rightarrow> py_error + (ohms_state \<times> bool)" where
  "ohms_set_preset preset_name s =
     (case OHMS_PRESETS preset_name of
        Some preset \<Rightarrow>
          (case set_voltage (preset_voltage preset) s of
             Inl e \<Rightarrow> Inl e
           | Inr s1 \<Rightarrow>
               (case set_resistance (preset_resistance preset) s1 of
                  Inl e \<Rightarrow> Inl e
                | Inr s2 \<Rightarrow> Inr (s2, True)))
      | None \<Rightarrow> Inr (s, False))"

definition is_dangerous :: "ohms_state \<Rightarrow> bool \<times> string" where
  "is_dangerous s =
     (if ohm_current s > 20.0 then
        (True, ''WARNING: Very high current! Risk of short circuit!'')
      else if ohm_power s > 500.0 then
        (True, ''WARNING: Very high power dissipation!'')
      else (False, ''''))"

text \<open>
  The class has exactly three mutators: the two property setters and \<^verbatim>\<open>set_preset\<close>
  (\<^verbatim>\<open>current\<close> and \<^verbatim>\<open>power\<close> are read-only properties). A caller's whole
  interaction with one instance is therefore a constructor call followed by a list of
  these operations; an exception ends the run.
\<close>

datatype ohms_op = SetVoltage real | SetResistance real | SetPreset string

fun ohms_step :: "ohms_op \<Rightarrow> ohms_state \<Rightarrow> py_error + ohms_state" where
  "ohms_step (SetVoltage v) s = set_voltage v s"
| "ohms_step (SetResistance r) s = set_resistance r s"
| "ohms_step (SetPreset n) s =
     (case ohms_set_preset n s of Inl e \<Rightarrow> Inl e | Inr (s', ok) \<Rightarrow> Inr s')"

fun ohms_run :: "ohms_op list \<Rightarrow> ohms_state \<Rightarrow> py_error + ohms_state" where
  "ohms_run [] s = Inr s"
| "ohms_run (x # xs) s =
     (case ohms_step x s of Inl e \<Rightarrow> Inl e | Inr s' \<Rightarrow> ohms_run xs s')"

definition ohms_session :: "real \<Rightarrow> real \<Rightarrow> ohms_op list \<Rightarrow> py_error + ohms_state" where
  "ohms_session v0 r0 ops =
     (case ohms_init v0 r0 of Inl e \<Rightarrow> Inl e | Inr s \<Rightarrow> ohms_run ops s)"

text \<open>The consistency condition the derived fields are meant to satisfy.\<close>

definition ohms_consistent :: "ohms_state \<Rightarrow> bool" where
  "ohms_consistent s \<longleftrightarrow>
     1 \<le> ohm_voltage s \<and> ohm_voltage s \<le> 50 \<and>
     1 \<le> ohm_resistance s \<and> ohm_resistance s \<le> 100 \<and>
     ohm_current s = ohm_voltage s / ohm_resistance s \<and>
     ohm_power s = ohm_voltage s * ohm_current s"


section \<open>VisionPhysics\<close>

record vision_state =
  near_point :: real
  object_distance :: real
  lens_power :: real
  age :: int
  required_power :: real

definition NORMAL_NEAR_POINT :: real where "NORMAL_NEAR_POINT = 25.0"
definition MIN_NEAR_POINT :: real where "MIN_NEAR_POINT = 10.0"
definition MAX_NEAR_POINT :: real where "MAX_NEAR_POINT = 100.0"
definition MIN_POWER :: real where "MIN_POWER = - 10.0"
definition MAX_POWER :: real where "MAX_POWER = 10.0"

record vision_preset =
  preset_near_point :: real
  preset_age :: int
  preset_description :: string

definition VISION_PRESETS :: "string \<rightharpoonup> vision_preset" where
  "VISION_PRESETS = map_of
     [(''normal'',
         \<lparr>preset_near_point = 25.0, preset_age = 25,
          preset_description = ''Normal Vision - Student''\<rparr>),
      (''mild_myopia'',
         \<lparr>preset_near_point = 15.0, preset_age = 20,
          preset_description = ''Mild Myopia - Young Adult''\<rparr>),
      (''moderate_myopia'',
         \<lparr>preset_near_point = 12.0, preset_age = 18,
          preset_description = ''Moderate Myopia - Teen''\<rparr>),
      (''mild_hyperopia'',
         \<lparr>preset_near_point = 40.0, preset_age = 45,
          preset_description = ''Mild Hyperopia - Middle-aged''\<rparr>),
      (''presbyopia'',
         \<lparr>preset_near_point = 50.0, preset_age = 60,
          preset_description = ''Presbyopia - Elderly''\<rparr>)]"

definition clamp_near_point :: "real \<Rightarrow> real" where
  "clamp_near_point v = max MIN_NEAR_POINT (min MAX_NEAR_POINT v)"

definition clamp_distance :: "real \<Rightarrow> real" where
  "clamp_distance v = max 5.0 (min 200.0 v)"

text \<open>\<^verbatim>\<open>_calculate_required_power\<close>: the early return stores 0.0; otherwise the thin-lens
  formula with \<open>v = -near_point / 100\<close> and \<open>u = -25 / 100\<close>.\<close>

definition calculate_required_power :: "vision_state \<Rightarrow> py_error + vision_state" where
  "calculate_required_power s =
     (if \<bar>near_point s - NORMAL_NEAR_POINT\<bar> < 0.1 then Inr (s\<lparr>required_power := 0.0\<rparr>)
      else
        let v = - near_point s / 100.0;
            u = - NORMAL_NEAR_POINT / 100.0
        in case py_truediv 1.0 v of
             Inl e \<Rightarrow> Inl e
           | Inr a \<Rightarrow>
               (case py_truediv 1.0 u of
                  Inl e \<Rightarrow> Inl e
                | Inr b \<Rightarrow> Inr (s\<lparr>required_power := a - b\<rparr>)))"

text \<open>\<^verbatim>\<open>__init__\<close>. The attribute \<^verbatim>\<open>_required_power\<close> does not exist before the call of
  \<^verbatim>\<open>_calculate_required_power\<close>, which assigns it on every path that returns; the
  record holds 0 there until then.\<close>

definition vision_init :: "real \<Rightarrow> real \<Rightarrow> py_error + vision_state" where
  "vision_init np od =
     calculate_required_power
       \<lparr>near_point = clamp_near_point np,
        object_distance = clamp_distance od,
        lens_power = 0.0,
        age = 25,
        required_power = 0\<rparr>"

definition set_near_point :: "real \<Rightarrow> vision_state \<Rightarrow> py_error + vision_state" where
  "set_near_point v s = calculate_required_power (s\<lparr>near_point := clamp_near_point v\<rparr>)"

definition set_object_distance :: "real \<Rightarrow> vision_state \<Rightarrow> vision_state" where
  "set_object_distance v s = s\<lparr>object_distance := clamp_distance v\<rparr>"

definition set_lens_power :: "real \<Rightarrow> vision_state \<Rightarrow> vision_state" where
  "set_lens_power v s = s\<lparr>lens_power := max MIN_POWER (min MAX_POWER v)\<rparr>"

text \<open>The \<^verbatim>\<open>age\<close> setter: above 40 the near point is overwritten, without the clamp.\<close>

definition set_age :: "int \<Rightarrow> vision_state \<Rightarrow> py_error + vision_state" where
  "set_age v s =
     (let s1 = s\<lparr>age := max 5 (min 100 v)\<rparr> in
      if age s1 > 40 then
        let age_factor = real_of_int (age s1 - 40) / 60.0;
            s2 = s1\<lparr>near_point := 25.0 + (age_factor * 30.0)\<rparr>
        in calculate_required_power s2
      else Inr s1)"

definition get_required_power :: "vision_state \<Rightarrow> real" where
  "get_required_power s = required_power s"

text \<open>\<^verbatim>\<open>get_effective_near_point\<close>: the first test returns for \<open>|P| < 0.01\<close>, the second
  opens the lens computation for \<open>|P| > 0.01\<close>; the last \<^verbatim>\<open>return\<close> serves both the
  failed inner test and \<open>|P| = 0.01\<close>.\<close>

definition get_effective_near_point :: "vision_state \<Rightarrow> py_error + real" where
  "get_effective_near_point s =
     (if \<bar>lens_power s\<bar> < 0.01 then Inr (near_point s)
      else if \<bar>lens_power s\<bar> > 0.01 then
        (case py_truediv 1.0 (lens_power s) of
           Inl e \<Rightarrow> Inl e
         | Inr focal_length \<Rightarrow>
             let u = - NORMAL_NEAR_POINT / 100.0;
                 f = focal_length
             in if \<bar>f - u\<bar> > 0.001 then
                  (case py_truediv (f * u) (f + u) of
                     Inl e \<Rightarrow> Inl e
                   | Inr v \<Rightarrow>
                       let effective_near_point = \<bar>v * 100.0\<bar>
                       in Inr (min 100.0 (max 10.0 effective_near_point)))
                else Inr (near_point s))
      else Inr (near_point s))"

definition get_focus_quality :: "vision_state \<Rightarrow> py_error + real" where
  "get_focus_quality s =
     (case get_effective_near_point s of
        Inl e \<Rightarrow> Inl e
      | Inr effective_np \<Rightarrow>
          if \<bar>object_distance s - effective_np\<bar> < 2.0 then Inr 1.0
          else
            let distance_error = \<bar>object_distance s - effective_np\<bar>;
                max_blur_distance = 30.0;
                focus = max 0.0 (1.0 - (distance_error / max_blur_distance))
            in Inr focus)"

text \<open>\<^verbatim>\<open>set_preset\<close> assigns near point and age directly (neither the clamp nor the age
  setter runs) and recomputes the required power.\<close>

definition vision_set_preset ::
  "string \<Rightarrow> vision_state \<Rightarrow> py_error + (vision_state \<times> bool)" where
  "vision_set_preset preset_name s =
     (case VISION_PRESETS preset_name of
        Some preset \<Rightarrow>
          (case calculate_required_power
                  (s\<lparr>near_point := preset_near_point preset, age := preset_age preset\<rparr>) of
             Inl e \<Rightarrow> Inl e
           | Inr s' \<Rightarrow> Inr (s', True))
      | None \<Rightarrow> Inr (s, False))"

text \<open>
  The mutators of the class: the four property setters and \<^verbatim>\<open>set_preset\<close>. All the
  other methods only read the state.
\<close>

datatype vision_op =
  SetNearPoint real
| SetObjectDistance real
| SetLensPower real
| SetAge int
| SetVisionPreset string

fun vision_step :: "vision_op \<Rightarrow> vision_state \<Rightarrow> py_error + vision_state" where
  "vision_step (SetNearPoint v) s = set_near_point v s"
| "vision_step (SetObjectDistance v) s = Inr (set_object_distance v s)"
| "vision_step (SetLensPower v) s = Inr (set_lens_power v s)"
| "vision_step (SetAge v) s = set_age v s"
| "vision_step (SetVisionPreset n) s =
     (case vision_set_preset n s of Inl e \<Rightarrow> Inl e | Inr (s', ok) \<Rightarrow> Inr s')"

fun vision_run :: "vision_op list \<Rightarrow> vision_state \<Rightarrow> py_error + vision_state" where
  "vision_run [] s = Inr s"
| "vision_run (x # xs) s =
     (case vision_step x s of Inl e \<Rightarrow> Inl e | Inr s' \<Rightarrow> vision_run xs s')"

definition vision_session :: "real \<Rightarrow> real \<Rightarrow> vision_op list \<Rightarrow> py_error + vision_state" where
  "vision_session np0 od0 ops =
     (case vision_init np0 od0 of Inl e \<Rightarrow> Inl e | Inr s \<Rightarrow> vision_run ops s)"

text \<open>The state condition kept by every mutator: the near point is in its range and the
  stored required power is the one computed from the stored near point.\<close>

definition vision_inv :: "vision_state \<Rightarrow> bool" where
  "vision_inv s \<longleftrightarrow>
     10 \<le> near_point s \<and> near_point s \<le> 100 \<and>
     required_power s =
       (if \<bar>near_point s - 25\<bar> < 0.1 then 0
        else 1 / (- near_point s / 100) - 1 / (- 0.25))"


section \<open>Properties of OhmsLawPhysics\<close>

lemma clamp_voltage_range: "1 \<le> clamp_voltage v \<and> clamp_voltage v \<le> 50"
  by (simp add: clamp_voltage_def MIN_VOLTAGE_def MAX_VOLTAGE_def)

lemma clamp_resistance_range: "1 \<le> clamp_resistance r \<and> clamp_resistance r \<le> 100"
  by (simp add: clamp_resistance_def MIN_RESISTANCE_def MAX_RESISTANCE_def)

text \<open>The floor at 0.1 makes the divisor positive in every state, so the recomputation
  never raises.\<close>

lemma update_calculations_total:
  "update_calculations s =
     Inr (s\<lparr>ohm_current := ohm_voltage s / max (ohm_resistance s) 0.1,
            ohm_power := ohm_voltage s * (ohm_voltage s / max (ohm_resistance s) 0.1)\<rparr>)"
proof -
  have "max (ohm_resistance s) (0.1::real) \<noteq> 0"
    by (simp add: max_def)
  then show ?thesis
    by (simp add: update_calculations_def py_truediv_def MIN_SAFE_RESISTANCE_def Let_def)
qed

lemma set_voltage_eq:
  "set_voltage v s =
     Inr (s\<lparr>ohm_voltage := clamp_voltage v,
            ohm_current := clamp_voltage v / max (ohm_resistance s) 0.1,
            ohm_power := clamp_voltage v * (clamp_voltage v / max (ohm_resistance s) 0.1)\<rparr>)"
  by (simp add: set_voltage_def update_calculations_total)

lemma set_resistance_eq:
  "set_resistance r s =
     Inr (s\<lparr>ohm_resistance := clamp_resistance r,
            ohm_current := ohm_voltage s / clamp_resistance r,
            ohm_power := ohm_voltage s * (ohm_voltage s / clamp_resistance r)\<rparr>)"
proof -
  have "max (clamp_resistance r) 0.1 = clamp_resistance r"
    using clamp_resistance_range [of r] by (simp add: max_def)
  then show ?thesis
    by (simp add: set_resistance_def update_calculations_total)
qed

lemma ohms_init_eq:
  "ohms_init v r =
     Inr \<lparr>ohm_voltage = clamp_voltage v,
          ohm_resistance = clamp_resistance r,
          ohm_current = clamp_voltage v / clamp_resistance r,
          ohm_power = clamp_voltage v * (clamp_voltage v / clamp_resistance r)\<rparr>"
proof -
  have "max (clamp_resistance r) 0.1 = clamp_resistance r"
    using clamp_resistance_range [of r] by (simp add: max_def)
  then show ?thesis
    by (simp add: ohms_init_def update_calculations_total)
qed

lemma ohms_init_consistent: "\<exists>s. ohms_init v r = Inr s \<and> ohms_consistent s"
  using clamp_voltage_range [of v] clamp_resistance_range [of r]
  by (simp add: ohms_init_eq ohms_consistent_def)

lemma set_voltage_consistent:
  assumes "1 \<le> ohm_resistance s" "ohm_resistance s \<le> 100"
  shows "\<exists>s'. set_voltage v s = Inr s' \<and> ohms_consistent s'"
proof -
  have "max (ohm_resistance s) 0.1 = ohm_resistance s"
    using assms by (simp add: max_def)
  then show ?thesis
    using assms clamp_voltage_range [of v]
    by (simp add: set_voltage_eq ohms_consistent_def)
qed

lemma set_resistance_consistent:
  assumes "1 \<le> ohm_voltage s" "ohm_voltage s \<le> 50"
  shows "\<exists>s'. set_resistance r s = Inr s' \<and> ohms_consistent s'"
  using assms clamp_resistance_range [of r]
  by (simp add: set_resistance_eq ohms_consistent_def)

lemma ohms_set_preset_known:
  assumes "OHMS_PRESETS n = Some p"
  shows "ohms_set_preset n s =
     Inr (s\<lparr>ohm_voltage := clamp_voltage (preset_voltage p),
            ohm_resistance := clamp_resistance (preset_resistance p),
            ohm_current := clamp_voltage (preset_voltage p) / clamp_resistance (preset_resistance p),
            ohm_power := clamp_voltage (preset_voltage p) *
               (clamp_voltage (preset_voltage p) / clamp_resistance (preset_resistance p))\<rparr>, True)"
  using assms by (simp add: ohms_set_preset_def set_voltage_eq set_resistance_eq)

lemma ohms_set_preset_unknown:
  assumes "OHMS_PRESETS n = None"
  shows "ohms_set_preset n s = Inr (s, False)"
  using assms by (simp add: ohms_set_preset_def)

lemma ohms_step_consistent:
  assumes "ohms_consistent s"
  shows "\<exists>s'. ohms_step x s = Inr s' \<and> ohms_consistent s'"
proof (cases x)
  case (SetVoltage v)
  then show ?thesis
    using assms set_voltage_consistent [of s v] by (simp add: ohms_consistent_def)
next
  case (SetResistance r)
  then show ?thesis
    using assms set_resistance_consistent [of s r] by (simp add: ohms_consistent_def)
next
  case (SetPreset n)
  show ?thesis
  proof (cases "OHMS_PRESETS n")
    case None
    then show ?thesis
      using assms SetPreset by (simp add: ohms_set_preset_unknown)
  next
    case (Some p)
    then show ?thesis
      using SetPreset clamp_voltage_range [of "preset_voltage p"]
        clamp_resistance_range [of "preset_resistance p"]
      by (simp add: ohms_set_preset_known ohms_consistent_def)
  qed
qed

lemma ohms_run_consistent:
  "ohms_consistent s \<Longrightarrow> \<exists>s'. ohms_run xs s = Inr s' \<and> ohms_consistent s'"
proof (induction xs arbitrary: s)
  case Nil
  then show ?case by simp
next
  case (Cons x xs)
  from ohms_step_consistent [OF Cons.prems, of x]
  obtain s1 where s1: "ohms_step x s = Inr s1" "ohms_consistent s1" by blast
  from Cons.IH [OF s1(2)] s1(1) show ?case by simp
qed

text \<open>
  Claim C2. Every mutator of the Ohm's law model recomputes the derived fields at once:
  starting from any state whose stored voltage lies in [1, 50] and whose stored resistance
  lies in [1, 100] (whatever its current and power fields hold), the voltage setter, the
  resistance setter and a preset with a known name each return normally, and in the state
  they leave the stored values are in range, \<open>current = voltage / resistance\<close> and
  \<open>power = voltage * current\<close>. The same holds after the constructor followed by any
  list of mutators. The operations of \<open>ohms_op\<close> are the only ways to change an
  instance, and none of them writes current or power except through the recomputation.
\<close>

theorem ohms_mutators_recompute:
  assumes "1 \<le> ohm_voltage s" "ohm_voltage s \<le> 50"
    and "1 \<le> ohm_resistance s" "ohm_resistance s \<le> 100"
  shows "(\<exists>s'. set_voltage x s = Inr s' \<and> ohms_consistent s') \<and>
         (\<exists>s'. set_resistance x s = Inr s' \<and> ohms_consistent s') \<and>
         (\<forall>p. OHMS_PRESETS n = Some p \<longrightarrow>
            (\<exists>s'. ohms_set_preset n s = Inr (s', True) \<and> ohms_consistent s')) \<and>
         (\<exists>s'. ohms_session v0 r0 ops = Inr s' \<and> ohms_consistent s')"
proof (intro conjI allI impI)
  show "\<exists>s'. set_voltage x s = Inr s' \<and> ohms_consistent s'"
    using assms(3,4) by (rule set_voltage_consistent)
  show "\<exists>s'. set_resistance x s = Inr s' \<and> ohms_consistent s'"
    using assms(1,2) by (rule set_resistance_consistent)
  show "\<exists>s'. ohms_set_preset n s = Inr (s', True) \<and> ohms_consistent s'"
    if "OHMS_PRESETS n = Some p" for p
    using that clamp_voltage_range [of "preset_voltage p"]
      clamp_resistance_range [of "preset_resistance p"]
    by (simp add: ohms_set_preset_known ohms_consistent_def)
  from ohms_init_consistent [of v0 r0]
  obtain s0 where s0: "ohms_init v0 r0 = Inr s0" "ohms_consistent s0" by blast
  from ohms_run_consistent [OF s0(2), of ops] s0(1)
  show "\<exists>s'. ohms_session v0 r0 ops = Inr s' \<and> ohms_consistent s'"
    by (simp add: ohms_session_def)
qed

theorem ohms_mutators_recompute_witness:
  "set_voltage 24 \<lparr>ohm_voltage = 12, ohm_resistance = 2, ohm_current = 0, ohm_power = 0\<rparr>
     = Inr \<lparr>ohm_voltage = 24, ohm_resistance = 2, ohm_current = 12, ohm_power = 288\<rparr> \<and>
   ohms_consistent \<lparr>ohm_voltage = 24, ohm_resistance = 2, ohm_current = 12, ohm_power = 288\<rparr> \<and>
   (\<exists>s'. set_resistance 5 \<lparr>ohm_voltage = 12, ohm_resistance = 2, ohm_current = 0, ohm_power = 0\<rparr>
            = Inr s' \<and> ohms_consistent s') \<and>
   (\<exists>s'. ohms_set_preset ''high_current''
            \<lparr>ohm_voltage = 12, ohm_resistance = 2, ohm_current = 0, ohm_power = 0\<rparr>
            = Inr (s', True) \<and> ohms_consistent s') \<and>
   (\<exists>s'. ohms_session 12 10 [SetVoltage 24, SetPreset ''low_current'', SetResistance 0]
            = Inr s' \<and> ohms_consistent s')"
proof -
  let ?s = "\<lparr>ohm_voltage = 12, ohm_resistance = 2, ohm_current = 0, ohm_power = 0\<rparr>"
  have p: "OHMS_PRESETS ''high_current''
             = Some \<lparr>preset_voltage = 24, preset_resistance = 2\<rparr>"
    by (simp add: OHMS_PRESETS_def)
  have e: "set_voltage 24 ?s
     = Inr \<lparr>ohm_voltage = 24, ohm_resistance = 2, ohm_current = 12, ohm_power = 288\<rparr>"
    by (simp add: set_voltage_eq clamp_voltage_def MIN_VOLTAGE_def MAX_VOLTAGE_def)
  have h: "1 \<le> ohm_voltage ?s" "ohm_voltage ?s \<le> 50"
    "1 \<le> ohm_resistance ?s" "ohm_resistance ?s \<le> 100"
    by simp_all
  from ohms_mutators_recompute [OF h, of 24 "''high_current''" 12 10
      "[SetVoltage 24, SetPreset ''low_current'', SetResistance 0]"]
    ohms_mutators_recompute [OF h, of 5 "''high_current''" 12 10
      "[SetVoltage 24, SetPreset ''low_current'', SetResistance 0]"]
  show ?thesis
    unfolding e using p by auto
qed

text \<open>
  Claim C4. The floor of the resistance clamp is the public minimum 1.0 and not the
  internal divide guard 0.1: setting the resistance to any value below 1.0 stores 1.0,
  and the preset \<open>short_circuit\<close>, whose table entry is (12.0, 0.1), leaves
  voltage 12.0, resistance 1.0 and current 12.0.
\<close>

theorem resistance_floor_is_public_minimum:
  assumes "r < 1"
  shows "(\<exists>s'. set_resistance r s = Inr s' \<and> ohm_resistance s' = 1) \<and>
         OHMS_PRESETS ''short_circuit''
           = Some \<lparr>preset_voltage = 12, preset_resistance = 0.1\<rparr> \<and>
         (\<exists>s'. ohms_set_preset ''short_circuit'' s = Inr (s', True) \<and>
               ohm_voltage s' = 12 \<and> ohm_resistance s' = 1 \<and> ohm_current s' = 12)"
proof -
  have c: "clamp_resistance r = 1"
    using assms by (simp add: clamp_resistance_def MIN_RESISTANCE_def MAX_RESISTANCE_def)
  have p: "OHMS_PRESETS ''short_circuit''
             = Some \<lparr>preset_voltage = 12, preset_resistance = 0.1\<rparr>"
    by (simp add: OHMS_PRESETS_def)
  have v: "clamp_voltage 12 = 12"
    by (simp add: clamp_voltage_def MIN_VOLTAGE_def MAX_VOLTAGE_def)
  have r: "clamp_resistance 0.1 = 1"
    by (simp add: clamp_resistance_def MIN_RESISTANCE_def MAX_RESISTANCE_def)
  show ?thesis
    using c p v r by (simp add: set_resistance_eq ohms_set_preset_known [OF p])
qed

theorem resistance_floor_is_public_minimum_witness:
  "(0::real) < 1 \<and>
   set_resistance 0 \<lparr>ohm_voltage = 12, ohm_resistance = 10, ohm_current = 1.2, ohm_power = 14.4\<rparr>
     = Inr \<lparr>ohm_voltage = 12, ohm_resistance = 1, ohm_current = 12, ohm_power = 144\<rparr> \<and>
   (\<exists>s'. ohms_set_preset ''short_circuit''
            \<lparr>ohm_voltage = 12, ohm_resistance = 10, ohm_current = 1.2, ohm_power = 14.4\<rparr>
            = Inr (s', True) \<and>
          ohm_voltage s' = 12 \<and> ohm_resistance s' = 1 \<and> ohm_current s' = 12)"
proof -
  have h: "(0::real) < 1" by simp
  have c: "clamp_resistance 0 = 1"
    by (simp add: clamp_resistance_def MIN_RESISTANCE_def MAX_RESISTANCE_def)
  have e: "set_resistance 0
      \<lparr>ohm_voltage = 12, ohm_resistance = 10, ohm_current = 1.2, ohm_power = 14.4\<rparr>
     = Inr \<lparr>ohm_voltage = 12, ohm_resistance = 1, ohm_current = 12, ohm_power = 144\<rparr>"
    by (simp add: set_resistance_eq c)
  from resistance_floor_is_public_minimum [OF h,
      of "\<lparr>ohm_voltage = 12, ohm_resistance = 10, ohm_current = 1.2, ohm_power = 14.4\<rparr>"]
  show ?thesis using h e by blast
qed

text \<open>
  Claim C5. \<open>is_dangerous\<close> reports True if and only if the current exceeds 20.0 or the
  power exceeds 500.0, both strictly: at current 20.0 and power 500.0 (the state reached
  with 25 V across 1.25 Ohm) it reports False with the empty message.
\<close>

theorem is_dangerous_iff_strict:
  "(fst (is_dangerous s) \<longleftrightarrow> ohm_current s > 20 \<or> ohm_power s > 500) \<and>
   is_dangerous (s\<lparr>ohm_current := 20, ohm_power := 500\<rparr>) = (False, '''') \<and>
   ohms_session 25 1.25 [] =
     Inr \<lparr>ohm_voltage = 25, ohm_resistance = 1.25, ohm_current = 20, ohm_power = 500\<rparr> \<and>
   is_dangerous \<lparr>ohm_voltage = 25, ohm_resistance = 1.25, ohm_current = 20, ohm_power = 500\<rparr>
     = (False, '''')"
proof (intro conjI)
  show "fst (is_dangerous s) \<longleftrightarrow> ohm_current s > 20 \<or> ohm_power s > 500"
    by (simp add: is_dangerous_def)
  show "is_dangerous (s\<lparr>ohm_current := 20, ohm_power := 500\<rparr>) = (False, '''')"
    by (simp add: is_dangerous_def)
  show "ohms_session 25 1.25 [] =
     Inr \<lparr>ohm_voltage = 25, ohm_resistance = 1.25, ohm_current = 20, ohm_power = 500\<rparr>"
    by (simp add: ohms_session_def ohms_init_eq clamp_voltage_def clamp_resistance_def
        MIN_VOLTAGE_def MAX_VOLTAGE_def MIN_RESISTANCE_def MAX_RESISTANCE_def)
  show "is_dangerous
      \<lparr>ohm_voltage = 25, ohm_resistance = 1.25, ohm_current = 20, ohm_power = 500\<rparr>
     = (False, '''')"
    by (simp add: is_dangerous_def)
qed


section \<open>Properties of VisionPhysics\<close>

lemma calculate_required_power_eq:
  assumes "near_point s \<noteq> 0"
  shows "calculate_required_power s =
     Inr (s\<lparr>required_power :=
            (if \<bar>near_point s - 25\<bar> < 0.1 then 0
             else 1 / (- near_point s / 100) - 1 / (- 0.25))\<rparr>)"
  using assms
  by (simp add: calculate_required_power_def py_truediv_def NORMAL_NEAR_POINT_def Let_def)

lemma required_power_zero_iff:
  assumes "near_point s \<noteq> 0"
  shows "(if \<bar>near_point s - 25\<bar> < 0.1 then 0
             else 1 / (- near_point s / 100) - 1 / (- 0.25)) = (0::real) \<longleftrightarrow> \<bar>near_point s - 25\<bar> < 0.1"
  using assms by (auto simp: field_simps)

lemma clamp_near_point_range: "10 \<le> clamp_near_point v \<and> clamp_near_point v \<le> 100"
  by (simp add: clamp_near_point_def MIN_NEAR_POINT_def MAX_NEAR_POINT_def)

lemma enp_error_iff:
  "get_effective_near_point s = Inl ZeroDivisionError \<longleftrightarrow> lens_power s = 4"
  by (auto simp: get_effective_near_point_def py_truediv_def NORMAL_NEAR_POINT_def Let_def field_simps split: if_splits)

lemma enp_lens:
  assumes "\<bar>lens_power s\<bar> > 0.01" "\<bar>1 / lens_power s - (- 0.25)\<bar> > 0.001" "lens_power s \<noteq> 4"
  shows "get_effective_near_point s =
     Inr (min 100 (max 10 \<bar>((1 / lens_power s) * (- 0.25)) / (1 / lens_power s + (- 0.25)) * 100\<bar>))"
  using assms
  by (auto simp: get_effective_near_point_def py_truediv_def NORMAL_NEAR_POINT_def Let_def field_simps split: if_splits)

lemma calculate_required_power_inv:
  assumes "10 \<le> near_point s" "near_point s \<le> 100"
  shows "\<exists>s'. calculate_required_power s = Inr s' \<and> vision_inv s'"
proof -
  have "near_point s \<noteq> 0" using assms by simp
  then show ?thesis
    using assms by (simp add: calculate_required_power_eq vision_inv_def)
qed

lemma age_near_point_range:
  assumes "40 < a" "a \<le> 100"
  shows "25 < 25 + (real_of_int (a - 40) / 60) * 30 \<and>
         25 + (real_of_int (a - 40) / 60) * 30 \<le> (55::real)"
  using assms by simp

lemma set_age_eq:
  "set_age v s =
     (if max 5 (min 100 v) > 40 then
        calculate_required_power
          (s\<lparr>age := max 5 (min 100 v),
             near_point := 25 + (real_of_int (max 5 (min 100 v) - 40) / 60) * 30\<rparr>)
      else Inr (s\<lparr>age := max 5 (min 100 v)\<rparr>))"
  by (auto simp: set_age_def Let_def max_def min_def)

lemma set_age_inv:
  assumes "vision_inv s"
  shows "\<exists>s'. set_age v s = Inr s' \<and> vision_inv s'"
proof (cases "max 5 (min 100 v) > 40")
  case True
  define a where "a = max 5 (min 100 v)"
  have a: "40 < a" "a \<le> 100" using True by (simp_all add: a_def)
  let ?s2 = "s\<lparr>age := a, near_point := 25 + (real_of_int (a - 40) / 60) * 30\<rparr>"
  have "10 \<le> near_point ?s2" "near_point ?s2 \<le> 100"
    using age_near_point_range [OF a] by simp_all
  from calculate_required_power_inv [OF this] show ?thesis
    unfolding set_age_eq a_def [symmetric] using a by simp
next
  case False
  then have "set_age v s = Inr (s\<lparr>age := max 5 (min 100 v)\<rparr>)"
    unfolding set_age_eq by (simp only: if_False)
  then show ?thesis
    using assms by (simp add: vision_inv_def)
qed

lemma vision_presets_range:
  assumes "VISION_PRESETS n = Some p"
  shows "12 \<le> preset_near_point p \<and> preset_near_point p \<le> 50"
  using assms by (auto simp: VISION_PRESETS_def split: if_splits)

lemma vision_presets_dom:
  "dom VISION_PRESETS =
     {''normal'', ''mild_myopia'', ''moderate_myopia'', ''mild_hyperopia'', ''presbyopia''}"
  by (auto simp: VISION_PRESETS_def split: if_splits)

lemma ohms_presets_dom:
  "dom OHMS_PRESETS =
     {''normal'', ''high_current'', ''low_current'', ''short_circuit'', ''open_circuit''}"
  by (auto simp: OHMS_PRESETS_def split: if_splits)

lemma vision_set_preset_known:
  assumes "VISION_PRESETS n = Some p"
  shows "\<exists>s'. vision_set_preset n s = Inr (s', True) \<and> vision_inv s' \<and>
           near_point s' = preset_near_point p \<and> age s' = preset_age p"
proof -
  let ?s1 = "s\<lparr>near_point := preset_near_point p, age := preset_age p\<rparr>"
  have r: "12 \<le> preset_near_point p" "preset_near_point p \<le> 50"
    using vision_presets_range [OF assms] by simp_all
  then have "near_point ?s1 \<noteq> 0" by simp
  from calculate_required_power_eq [OF this] show ?thesis
    using assms r by (simp add: vision_set_preset_def vision_inv_def)
qed

lemma vision_set_preset_unknown:
  assumes "VISION_PRESETS n = None"
  shows "vision_set_preset n s = Inr (s, False)"
  using assms by (simp add: vision_set_preset_def)

lemma set_near_point_inv: "\<exists>s'. set_near_point v s = Inr s' \<and> vision_inv s'"
proof -
  let ?s1 = "s\<lparr>near_point := clamp_near_point v\<rparr>"
  have "10 \<le> near_point ?s1" "near_point ?s1 \<le> 100"
    using clamp_near_point_range [of v] by simp_all
  from calculate_required_power_inv [OF this] show ?thesis
    by (simp add: set_near_point_def)
qed

lemma vision_init_inv: "\<exists>s. vision_init np od = Inr s \<and> vision_inv s"
proof -
  let ?s1 = "\<lparr>near_point = clamp_near_point np, object_distance = clamp_distance od,
        lens_power = 0.0, age = 25, required_power = 0\<rparr>"
  have "10 \<le> near_point ?s1" "near_point ?s1 \<le> 100"
    using clamp_near_point_range [of np] by simp_all
  from calculate_required_power_inv [OF this] show ?thesis
    by (simp add: vision_init_def)
qed

lemma vision_step_inv:
  assumes "vision_inv s"
  shows "\<exists>s'. vision_step x s = Inr s' \<and> vision_inv s'"
proof (cases x)
  case (SetNearPoint v)
  then show ?thesis using set_near_point_inv [of v s] by simp
next
  case (SetObjectDistance v)
  then show ?thesis using assms by (simp add: set_object_distance_def vision_inv_def)
next
  case (SetLensPower v)
  then show ?thesis using assms by (simp add: set_lens_power_def vision_inv_def)
next
  case (SetAge v)
  then show ?thesis using set_age_inv [OF assms, of v] by simp
next
  case (SetVisionPreset n)
  show ?thesis
  proof (cases "VISION_PRESETS n")
    case None
    then show ?thesis
      using assms SetVisionPreset by (simp add: vision_set_preset_unknown)
  next
    case (Some p)
    from vision_set_preset_known [OF Some, of s] show ?thesis
      using SetVisionPreset by auto
  qed
qed

lemma vision_run_inv:
  "vision_inv s \<Longrightarrow> \<exists>s'. vision_run xs s = Inr s' \<and> vision_inv s'"
proof (induction xs arbitrary: s)
  case Nil
  then show ?case by simp
next
  case (Cons x xs)
  from vision_step_inv [OF Cons.prems, of x]
  obtain s1 where s1: "vision_step x s = Inr s1" "vision_inv s1" by blast
  from Cons.IH [OF s1(2)] s1(1) show ?case by simp
qed

lemma vision_session_inv: "\<exists>s. vision_session np od ops = Inr s \<and> vision_inv s"
proof -
  from vision_init_inv [of np od]
  obtain s0 where s0: "vision_init np od = Inr s0" "vision_inv s0" by blast
  from vision_run_inv [OF s0(2), of ops] s0(1) show ?thesis
    by (simp add: vision_session_def)
qed

text \<open>
  Claim C1 says that the test \<open>|focal_length - u| > 0.001\<close> keeps the denominator
  \<open>focal_length + u\<close> of the lens formula away from zero. It does not: the test looks at
  the difference and the division uses the sum. At lens power 4.0, which the setter
  accepts, the focal length is 0.25, the test passes with \<open>|0.25 + 0.25| = 0.5\<close>, the
  denominator is \<open>0.25 - 0.25 = 0\<close> and the method raises \<^verbatim>\<open>ZeroDivisionError\<close>. This is
  the only lens power at which it raises.
\<close>

theorem effective_near_point_divides_by_zero:
  "vision_session 25 25 [SetLensPower 4] =
     Inr \<lparr>near_point = 25, object_distance = 25, lens_power = 4, age = 25,
          required_power = 0\<rparr> \<and>
   \<bar>4::real\<bar> \<ge> 0.01 \<and>
   \<bar>1 / 4 - (- NORMAL_NEAR_POINT / 100)\<bar> > 0.001 \<and>
   get_effective_near_point
     \<lparr>near_point = 25, object_distance = 25, lens_power = 4, age = 25,
      required_power = 0\<rparr> = Inl ZeroDivisionError \<and>
   (get_effective_near_point s = Inl ZeroDivisionError \<longleftrightarrow> lens_power s = 4)"
proof (intro conjI)
  show "vision_session 25 25 [SetLensPower 4] =
     Inr \<lparr>near_point = 25, object_distance = 25, lens_power = 4, age = 25,
          required_power = 0\<rparr>"
    by (simp add: vision_session_def vision_init_def calculate_required_power_def
        clamp_near_point_def clamp_distance_def set_lens_power_def NORMAL_NEAR_POINT_def
        MIN_NEAR_POINT_def MAX_NEAR_POINT_def MIN_POWER_def MAX_POWER_def)
  show "\<bar>4::real\<bar> \<ge> 0.01" by simp
  show "\<bar>1 / 4 - (- NORMAL_NEAR_POINT / 100)\<bar> > 0.001"
    by (simp add: NORMAL_NEAR_POINT_def)
  show "get_effective_near_point
     \<lparr>near_point = 25, object_distance = 25, lens_power = 4, age = 25,
      required_power = 0\<rparr> = Inl ZeroDivisionError"
    by (simp add: enp_error_iff)
  show "get_effective_near_point s = Inl ZeroDivisionError \<longleftrightarrow> lens_power s = 4"
    by (rule enp_error_iff)
qed

text \<open>
  Claim C3. After \<open>calculate_required_power\<close> on a state with a nonzero near point, the
  required power is 0 when \<open>|near_point - 25| < 0.1\<close> and \<open>1/v - 1/u\<close> with
  \<open>v = -near_point/100\<close>, \<open>u = -0.25\<close> otherwise; it is 0 only in the first case. It is 0
  at near point 25, negative at 15 and positive at 40. The stored required power agrees
  with this formula in every state a constructor call followed by mutators can reach.
\<close>

theorem required_power_formula:
  assumes "near_point s \<noteq> 0"
  shows "(\<exists>s'. calculate_required_power s = Inr s' \<and>
           get_required_power s' =
             (if \<bar>near_point s - 25\<bar> < 0.1 then 0
              else 1 / (- near_point s / 100) - 1 / (- 0.25)) \<and>
           (get_required_power s' = 0 \<longleftrightarrow> \<bar>near_point s - 25\<bar> < 0.1) \<and>
           (near_point s = 25 \<longrightarrow> get_required_power s' = 0) \<and>
           (near_point s = 15 \<longrightarrow> get_required_power s' < 0) \<and>
           (near_point s = 40 \<longrightarrow> get_required_power s' > 0)) \<and>
         (\<exists>t. vision_session np od ops = Inr t \<and>
           get_required_power t =
             (if \<bar>near_point t - 25\<bar> < 0.1 then 0
              else 1 / (- near_point t / 100) - 1 / (- 0.25)))"
proof
  let ?rp = "if \<bar>near_point s - 25\<bar> < 0.1 then 0
              else 1 / (- near_point s / 100) - 1 / (- 0.25)"
  have e: "calculate_required_power s = Inr (s\<lparr>required_power := ?rp\<rparr>)"
    using assms by (rule calculate_required_power_eq)
  have z: "?rp = 0 \<longleftrightarrow> \<bar>near_point s - 25\<bar> < 0.1"
    using assms by (rule required_power_zero_iff)
  have a: "near_point s = 25 \<longrightarrow> ?rp = 0" by simp
  have b: "near_point s = 15 \<longrightarrow> ?rp < 0" by simp
  have c: "near_point s = 40 \<longrightarrow> ?rp > 0" by simp
  show "\<exists>s'. calculate_required_power s = Inr s' \<and>
           get_required_power s' = ?rp \<and>
           (get_required_power s' = 0 \<longleftrightarrow> \<bar>near_point s - 25\<bar> < 0.1) \<and>
           (near_point s = 25 \<longrightarrow> get_required_power s' = 0) \<and>
           (near_point s = 15 \<longrightarrow> get_required_power s' < 0) \<and>
           (near_point s = 40 \<longrightarrow> get_required_power s' > 0)"
    unfolding e get_required_power_def using z a b c by simp
  from vision_session_inv [of np od ops]
  show "\<exists>t. vision_session np od ops = Inr t \<and>
           get_required_power t =
             (if \<bar>near_point t - 25\<bar> < 0.1 then 0
              else 1 / (- near_point t / 100) - 1 / (- 0.25))"
    by (auto simp: vision_inv_def get_required_power_def)
qed

theorem required_power_formula_witness:
  "(\<exists>s'. calculate_required_power
           \<lparr>near_point = 25, object_distance = 25, lens_power = 0, age = 25,
            required_power = 7\<rparr> = Inr s' \<and> get_required_power s' = 0) \<and>
   (\<exists>s'. calculate_required_power
           \<lparr>near_point = 15, object_distance = 25, lens_power = 0, age = 25,
            required_power = 7\<rparr> = Inr s' \<and> get_required_power s' = - 8 / 3
           \<and> get_required_power s' < 0) \<and>
   (\<exists>s'. calculate_required_power
           \<lparr>near_point = 40, object_distance = 25, lens_power = 0, age = 25,
            required_power = 7\<rparr> = Inr s' \<and> get_required_power s' = 3 / 2
           \<and> get_required_power s' > 0)"
proof -
  let ?s = "\<lambda>x. \<lparr>near_point = x, object_distance = 25, lens_power = 0, age = 25,
            required_power = 7\<rparr>"
  have h: "near_point (?s 25) \<noteq> 0" "near_point (?s 15) \<noteq> 0" "near_point (?s 40) \<noteq> 0"
    by simp_all
  from required_power_formula [OF h(1), of 25 25 "[]"]
    required_power_formula [OF h(2), of 25 25 "[]"]
    required_power_formula [OF h(3), of 25 25 "[]"]
  show ?thesis by (auto split: if_splits)
qed

text \<open>
  Claim C6. In both models \<open>set_preset\<close> with a name that is not a key of the preset
  table returns False together with the state it was given, equal in every field, and
  raises nothing; with a key of the table it returns True.
\<close>

theorem set_preset_unknown_name:
  "(n \<notin> dom OHMS_PRESETS \<longrightarrow> ohms_set_preset n s = Inr (s, False)) \<and>
   (n \<notin> dom VISION_PRESETS \<longrightarrow> vision_set_preset n v = Inr (v, False)) \<and>
   (n \<in> dom OHMS_PRESETS \<longrightarrow> (\<exists>s'. ohms_set_preset n s = Inr (s', True))) \<and>
   (n \<in> dom VISION_PRESETS \<longrightarrow> (\<exists>v'. vision_set_preset n v = Inr (v', True)))"
proof (intro conjI impI)
  assume "n \<notin> dom OHMS_PRESETS"
  then have "OHMS_PRESETS n = None" by (simp add: domIff)
  then show "ohms_set_preset n s = Inr (s, False)" by (rule ohms_set_preset_unknown)
next
  assume "n \<notin> dom VISION_PRESETS"
  then have "VISION_PRESETS n = None" by (simp add: domIff)
  then show "vision_set_preset n v = Inr (v, False)" by (rule vision_set_preset_unknown)
next
  assume "n \<in> dom OHMS_PRESETS"
  then obtain p where "OHMS_PRESETS n = Some p" by blast
  then show "\<exists>s'. ohms_set_preset n s = Inr (s', True)"
    by (simp add: ohms_set_preset_known)
next
  assume "n \<in> dom VISION_PRESETS"
  then obtain p where "VISION_PRESETS n = Some p" by blast
  from vision_set_preset_known [OF this, of v]
  show "\<exists>v'. vision_set_preset n v = Inr (v', True)" by blast
qed

theorem set_preset_unknown_name_witness:
  "''turbo'' \<notin> dom OHMS_PRESETS \<and> ''turbo'' \<notin> dom VISION_PRESETS \<and>
   ohms_set_preset ''turbo''
     \<lparr>ohm_voltage = 24, ohm_resistance = 2, ohm_current = 12, ohm_power = 288\<rparr>
     = Inr (\<lparr>ohm_voltage = 24, ohm_resistance = 2, ohm_current = 12, ohm_power = 288\<rparr>, False) \<and>
   vision_set_preset ''turbo''
     \<lparr>near_point = 15, object_distance = 30, lens_power = 2, age = 20,
      required_power = - 8 / 3\<rparr>
     = Inr (\<lparr>near_point = 15, object_distance = 30, lens_power = 2, age = 20,
            required_power = - 8 / 3\<rparr>, False) \<and>
   ''normal'' \<in> dom OHMS_PRESETS \<and> ''normal'' \<in> dom VISION_PRESETS \<and>
   (\<exists>s'. ohms_set_preset ''normal''
     \<lparr>ohm_voltage = 24, ohm_resistance = 2, ohm_current = 12, ohm_power = 288\<rparr>
     = Inr (s', True)) \<and>
   (\<exists>v'. vision_set_preset ''normal''
     \<lparr>near_point = 15, object_distance = 30, lens_power = 2, age = 20,
      required_power = - 8 / 3\<rparr> = Inr (v', True))"
proof -
  have a: "''turbo'' \<notin> dom OHMS_PRESETS" "''normal'' \<in> dom OHMS_PRESETS"
    by (simp_all add: ohms_presets_dom)
  have b: "''turbo'' \<notin> dom VISION_PRESETS" "''normal'' \<in> dom VISION_PRESETS"
    by (simp_all add: vision_presets_dom)
  from set_preset_unknown_name [of "''turbo''"
      "\<lparr>ohm_voltage = 24, ohm_resistance = 2, ohm_current = 12, ohm_power = 288\<rparr>"
      "\<lparr>near_point = 15, object_distance = 30, lens_power = 2, age = 20,
        required_power = - 8 / 3\<rparr>"]
    set_preset_unknown_name [of "''normal''"
      "\<lparr>ohm_voltage = 24, ohm_resistance = 2, ohm_current = 12, ohm_power = 288\<rparr>"
      "\<lparr>near_point = 15, object_distance = 30, lens_power = 2, age = 20,
        required_power = - 8 / 3\<rparr>"]
  show ?thesis using a b by blast
qed

text \<open>
  Claim C7. The age setter stores the age clamped to [5, 100]. When the clamped age
  exceeds 40 it returns normally, the near point becomes
  \<open>25 + ((age - 40) / 60) * 30\<close>, the required power is the one computed from that near
  point, and no other field changes; when it does not exceed 40 only the age field
  changes. Age 60 gives near point 35; age 30 leaves the near point as it was.
\<close>

theorem set_age_presbyopia:
  "(if max 5 (min 100 v) > 40 then
      \<exists>s'. set_age v s = Inr s' \<and>
        s' = s\<lparr>age := max 5 (min 100 v),
               near_point := 25 + (real_of_int (max 5 (min 100 v) - 40) / 60) * 30,
               required_power := required_power s'\<rparr> \<and>
        required_power s' =
          (if \<bar>near_point s' - 25\<bar> < 0.1 then 0
           else 1 / (- near_point s' / 100) - 1 / (- 0.25))
    else set_age v s = Inr (s\<lparr>age := max 5 (min 100 v)\<rparr>)) \<and>
   (\<exists>s'. set_age 60 s = Inr s' \<and> age s' = 60 \<and> near_point s' = 35 \<and>
         required_power s' = 8 / 7) \<and>
   set_age 30 s = Inr (s\<lparr>age := 30\<rparr>)"
proof (intro conjI)
  define a where "a = max 5 (min 100 v)"
  show "if max 5 (min 100 v) > 40 then
      \<exists>s'. set_age v s = Inr s' \<and>
        s' = s\<lparr>age := max 5 (min 100 v),
               near_point := 25 + (real_of_int (max 5 (min 100 v) - 40) / 60) * 30,
               required_power := required_power s'\<rparr> \<and>
        required_power s' =
          (if \<bar>near_point s' - 25\<bar> < 0.1 then 0
           else 1 / (- near_point s' / 100) - 1 / (- 0.25))
    else set_age v s = Inr (s\<lparr>age := max 5 (min 100 v)\<rparr>)"
  proof (cases "a > 40")
    case True
    have a: "40 < a" "a \<le> 100" using True by (simp_all add: a_def)
    let ?s2 = "s\<lparr>age := a, near_point := 25 + (real_of_int (a - 40) / 60) * 30\<rparr>"
    have r: "25 < 25 + (real_of_int (a - 40) / 60) * 30"
      using age_near_point_range [OF a] by (rule conjunct1)
    have "near_point ?s2 = 25 + (real_of_int (a - 40) / 60) * 30" by simp
    with r have "near_point ?s2 \<noteq> 0" by linarith
    from calculate_required_power_eq [OF this] show ?thesis
      unfolding set_age_eq a_def [symmetric] using True by simp
  next
    case False
    then show ?thesis
      unfolding set_age_eq a_def [symmetric] by simp
  qed
  have "near_point (s\<lparr>age := 60, near_point := 35\<rparr>) \<noteq> 0" by simp
  from calculate_required_power_eq [OF this]
  show "\<exists>s'. set_age 60 s = Inr s' \<and> age s' = 60 \<and> near_point s' = 35 \<and>
         required_power s' = 8 / 7"
    by (simp add: set_age_eq)
  show "set_age 30 s = Inr (s\<lparr>age := 30\<rparr>)"
    by (simp add: set_age_eq)
qed

text \<open>
  Claim C8. Where \<open>get_effective_near_point\<close> returns a value, \<open>get_focus_quality\<close>
  returns 1 if the object distance is less than 2 away from it, and
  \<open>max 0 (1 - gap / 30)\<close> for the gap between them otherwise: exactly 1 when the two are
  equal, \<open>1 - gap / 30\<close> for a gap from 2 to 30, and 0 for a gap of 30 or more.
\<close>

theorem focus_quality_formula:
  assumes "get_effective_near_point s = Inr enp"
  shows "get_focus_quality s =
           Inr (if \<bar>object_distance s - enp\<bar> < 2 then 1
                else max 0 (1 - \<bar>object_distance s - enp\<bar> / 30)) \<and>
         (object_distance s = enp \<longrightarrow> get_focus_quality s = Inr 1) \<and>
         (2 \<le> \<bar>object_distance s - enp\<bar> \<and> \<bar>object_distance s - enp\<bar> \<le> 30 \<longrightarrow>
            get_focus_quality s = Inr (1 - \<bar>object_distance s - enp\<bar> / 30)) \<and>
         (30 \<le> \<bar>object_distance s - enp\<bar> \<longrightarrow> get_focus_quality s = Inr 0)"
proof -
  have e: "get_focus_quality s =
           Inr (if \<bar>object_distance s - enp\<bar> < 2 then 1
                else max 0 (1 - \<bar>object_distance s - enp\<bar> / 30))"
    using assms by (simp add: get_focus_quality_def Let_def)
  show ?thesis
    unfolding e by (auto simp: max_def)
qed

theorem focus_quality_formula_witness:
  "get_effective_near_point
     \<lparr>near_point = 25, object_distance = 25, lens_power = 0, age = 25,
      required_power = 0\<rparr> = Inr 25 \<and>
   get_focus_quality
     \<lparr>near_point = 25, object_distance = 25, lens_power = 0, age = 25,
      required_power = 0\<rparr> = Inr 1 \<and>
   get_effective_near_point
     \<lparr>near_point = 25, object_distance = 40, lens_power = 0, age = 25,
      required_power = 0\<rparr> = Inr 25 \<and>
   get_focus_quality
     \<lparr>near_point = 25, object_distance = 40, lens_power = 0, age = 25,
      required_power = 0\<rparr> = Inr (1 / 2) \<and>
   get_effective_near_point
     \<lparr>near_point = 25, object_distance = 100, lens_power = 0, age = 25,
      required_power = 0\<rparr> = Inr 25 \<and>
   get_focus_quality
     \<lparr>near_point = 25, object_distance = 100, lens_power = 0, age = 25,
      required_power = 0\<rparr> = Inr 0"
proof -
  let ?s = "\<lambda>d. \<lparr>near_point = 25, object_distance = d, lens_power = 0, age = 25,
      required_power = 0\<rparr>"
  have h: "get_effective_near_point (?s d) = Inr 25" for d
    by (simp add: get_effective_near_point_def)
  from focus_quality_formula [OF h [of 25]] focus_quality_formula [OF h [of 40]]
    focus_quality_formula [OF h [of 100]]
  show ?thesis using h by simp
qed

text \<open>
  Claim C9 as stated includes \<open>|lens_power| = 0.01\<close>. There neither of the two tests
  \<open>< 0.01\<close> and \<open>> 0.01\<close> holds, the method falls through to its last \<^verbatim>\<open>return\<close> and gives
  back the stored near point: two states with lens power 0.01 and near points 20 and 30
  get different results.
\<close>

theorem effective_near_point_boundary_counterexample:
  "vision_session 20 25 [SetLensPower 0.01] =
     Inr \<lparr>near_point = 20, object_distance = 25, lens_power = 0.01, age = 25,
          required_power = - 1\<rparr> \<and>
   vision_session 30 25 [SetLensPower 0.01] =
     Inr \<lparr>near_point = 30, object_distance = 25, lens_power = 0.01, age = 25,
          required_power = 2 / 3\<rparr> \<and>
   \<bar>0.01 :: real\<bar> \<ge> 0.01 \<and>
   \<bar>1 / 0.01 - (- NORMAL_NEAR_POINT / 100)\<bar> > 0.001 \<and>
   get_effective_near_point
     \<lparr>near_point = 20, object_distance = 25, lens_power = 0.01, age = 25,
      required_power = - 1\<rparr> = Inr 20 \<and>
   get_effective_near_point
     \<lparr>near_point = 30, object_distance = 25, lens_power = 0.01, age = 25,
      required_power = 2 / 3\<rparr> = Inr 30 \<and>
   get_effective_near_point
     \<lparr>near_point = 20, object_distance = 25, lens_power = 0.01, age = 25,
      required_power = - 1\<rparr> \<noteq>
   get_effective_near_point
     \<lparr>near_point = 30, object_distance = 25, lens_power = 0.01, age = 25,
      required_power = 2 / 3\<rparr>"
  by (simp add: vision_session_def vision_init_def calculate_required_power_def
        clamp_near_point_def clamp_distance_def set_lens_power_def NORMAL_NEAR_POINT_def
        MIN_NEAR_POINT_def MAX_NEAR_POINT_def MIN_POWER_def MAX_POWER_def py_truediv_def
        get_effective_near_point_def)

text \<open>
  Claim C9, amended. For two states with the same lens power, if \<open>|lens_power| > 0.01\<close>
  (strictly), the test \<open>|focal_length - u| > 0.001\<close> passes (\<open>u = -0.25\<close>) and the lens
  power is not 4, then \<open>get_effective_near_point\<close> returns the same value in both: the
  clamp to [10, 100] of \<open>|focal_length * u / (focal_length + u)| * 100\<close>, which mentions
  only the lens power and the normal near point.
\<close>

theorem effective_near_point_depends_on_lens_power_only:
  assumes "lens_power s1 = lens_power s2"
    and "\<bar>lens_power s1\<bar> > 0.01"
    and "\<bar>1 / lens_power s1 - (- 0.25)\<bar> > 0.001"
    and "lens_power s1 \<noteq> 4"
  shows "get_effective_near_point s1 =
           Inr (min 100 (max 10
             \<bar>((1 / lens_power s1) * (- 0.25)) / (1 / lens_power s1 + (- 0.25)) * 100\<bar>)) \<and>
         get_effective_near_point s2 = get_effective_near_point s1"
proof -
  have "get_effective_near_point s1 =
           Inr (min 100 (max 10
             \<bar>((1 / lens_power s1) * (- 0.25)) / (1 / lens_power s1 + (- 0.25)) * 100\<bar>))"
    using assms(2,3,4) by (rule enp_lens)
  moreover have "get_effective_near_point s2 =
           Inr (min 100 (max 10
             \<bar>((1 / lens_power s2) * (- 0.25)) / (1 / lens_power s2 + (- 0.25)) * 100\<bar>))"
    using assms(2,3,4) unfolding assms(1) by (rule enp_lens)
  ultimately show ?thesis
    using assms(1) by simp
qed

theorem effective_near_point_depends_on_lens_power_only_witness:
  "get_effective_near_point
     \<lparr>near_point = 20, object_distance = 25, lens_power = 2, age = 25,
      required_power = - 1\<rparr> = Inr 50 \<and>
   get_effective_near_point
     \<lparr>near_point = 55, object_distance = 80, lens_power = 2, age = 100,
      required_power = 24 / 11\<rparr> = Inr 50"
proof -
  let ?s1 = "\<lparr>near_point = 20, object_distance = 25, lens_power = 2, age = 25,
      required_power = - 1\<rparr>"
  let ?s2 = "\<lparr>near_point = 55, object_distance = 80, lens_power = 2, age = 100,
      required_power = 24 / 11\<rparr>"
  have h: "lens_power ?s1 = lens_power ?s2" "\<bar>lens_power ?s1\<bar> > 0.01"
    "\<bar>1 / lens_power ?s1 - (- 0.25)\<bar> > 0.001" "lens_power ?s1 \<noteq> 4"
    by simp_all
  from effective_near_point_depends_on_lens_power_only [OF h]
  show ?thesis by simp
qed

text \<open>
  Claim C10. After the constructor and any list of mutators the run has not raised and
  the near point lies in [10, 100], although \<open>set_preset\<close> and the age setter assign it
  without the clamp: every preset near point lies in [12, 50], and a near point written
  by the age setter lies in (25, 55], with 55 reached at age 100.
\<close>

theorem near_point_stays_in_range:
  "(\<exists>s. vision_session np od ops = Inr s \<and> 10 \<le> near_point s \<and> near_point s \<le> 100) \<and>
   (\<forall>n p. VISION_PRESETS n = Some p \<longrightarrow>
      12 \<le> preset_near_point p \<and> preset_near_point p \<le> 50) \<and>
   (\<forall>v s s'. set_age v s = Inr s' \<and> age s' > 40 \<longrightarrow>
      25 < near_point s' \<and> near_point s' \<le> 55) \<and>
   (\<forall>s. \<exists>s'. set_age 100 s = Inr s' \<and> near_point s' = 55)"
proof (intro conjI allI impI)
  from vision_session_inv [of np od ops]
  show "\<exists>s. vision_session np od ops = Inr s \<and> 10 \<le> near_point s \<and> near_point s \<le> 100"
    by (auto simp: vision_inv_def)
next
  fix n p assume "VISION_PRESETS n = Some p"
  then show "12 \<le> preset_near_point p" "preset_near_point p \<le> 50"
    using vision_presets_range by blast+
next
  fix v s s' assume h: "set_age v s = Inr s' \<and> age s' > 40"
  define a where "a = max 5 (min 100 v)"
  have e: "set_age v s =
     (if a > 40 then
        calculate_required_power
          (s\<lparr>age := a, near_point := 25 + (real_of_int (a - 40) / 60) * 30\<rparr>)
      else Inr (s\<lparr>age := a\<rparr>))"
    unfolding a_def by (rule set_age_eq)
  have a100: "a \<le> 100" by (simp add: a_def)
  have a40: "40 < a"
  proof (rule ccontr)
    assume "\<not> 40 < a"
    then have "s' = s\<lparr>age := a\<rparr>" using h e by simp
    then show False using h \<open>\<not> 40 < a\<close> by simp
  qed
  have r: "25 < 25 + (real_of_int (a - 40) / 60) * 30"
      "25 + (real_of_int (a - 40) / 60) * 30 \<le> (55::real)"
    using age_near_point_range [OF a40 a100] by blast+
  let ?s2 = "s\<lparr>age := a, near_point := 25 + (real_of_int (a - 40) / 60) * 30\<rparr>"
  have n2: "near_point ?s2 = 25 + (real_of_int (a - 40) / 60) * 30" by simp
  with r have "near_point ?s2 \<noteq> 0" by linarith
  from calculate_required_power_eq [OF this] h e a40
  have "near_point s' = 25 + (real_of_int (a - 40) / 60) * 30" by auto
  with r show "25 < near_point s'" "near_point s' \<le> 55" by simp_all
next
  fix s :: vision_state
  have "near_point (s\<lparr>age := 100, near_point := 55\<rparr>) \<noteq> 0" by simp
  from calculate_required_power_eq [OF this]
  show "\<exists>s'. set_age 100 s = Inr s' \<and> near_point s' = 55"
    by (simp add: set_age_eq)
qed

theorem near_point_stays_in_range_witness:
  "vision_session 500 25 [SetAge 100, SetVisionPreset ''moderate_myopia'', SetNearPoint 3,
      SetAge 41] =
     Inr \<lparr>near_point = 25.5, object_distance = 25, lens_power = 0, age = 41,
          required_power = 4 / 51\<rparr> \<and>
   VISION_PRESETS ''presbyopia'' =
     Some \<lparr>preset_near_point = 50, preset_age = 60,
           preset_description = ''Presbyopia - Elderly''\<rparr> \<and>
   (\<exists>s'. set_age 100 \<lparr>near_point = 12, object_distance = 25, lens_power = 0, age = 18,
                       required_power = - 13 / 3\<rparr> = Inr s' \<and> near_point s' = 55)"
proof -
  have s: "vision_session 500 25 [SetAge 100, SetVisionPreset ''moderate_myopia'',
      SetNearPoint 3, SetAge 41] =
     Inr \<lparr>near_point = 25.5, object_distance = 25, lens_power = 0, age = 41,
          required_power = 4 / 51\<rparr>"
    by (simp add: vision_session_def vision_init_def calculate_required_power_def
        clamp_near_point_def clamp_distance_def set_near_point_def set_age_def
        vision_set_preset_def VISION_PRESETS_def NORMAL_NEAR_POINT_def
        MIN_NEAR_POINT_def MAX_NEAR_POINT_def py_truediv_def Let_def)
  have p: "VISION_PRESETS ''presbyopia'' =
     Some \<lparr>preset_near_point = 50, preset_age = 60,
           preset_description = ''Presbyopia - Elderly''\<rparr>"
    by (simp add: VISION_PRESETS_def)
  from near_point_stays_in_range [of 500 25 "[SetAge 100,
      SetVisionPreset ''moderate_myopia'', SetNearPoint 3, SetAge 41]"]
  show ?thesis using s p by blast
qed

end
